theory Spec2Isabelle
  imports Main
begin

section \<open>The sign-up server of \<^verbatim>\<open>src/server.ts\<close>\<close>

text \<open>
  The server has six routes. Each handler is embedded as a function from the request,
  the outcomes of the calls it makes to its collaborators (the Xero client, the ORM,
  \<^verbatim>\<open>uuid\<close>) and the state before the request, to the state after it, the
  datastore and cookie operations it performed (in order) and its reply. Requests are
  handled one after the other.
\<close>

subsection \<open>Data\<close>

text \<open>
  The claims of a decoded id token that the callback reads
  (\<^verbatim>\<open>decodedIdToken.given_name\<close>, \<^verbatim>\<open>.family_name\<close>, \<^verbatim>\<open>.email\<close>,
  \<^verbatim>\<open>.xero_userid\<close>). The two fields that share their name with a column of the
  User table carry the suffix \<^verbatim>\<open>_claim\<close>.
\<close>

record id_claims =
  given_name :: string
  family_name :: string
  email_claim :: string
  xero_userid_claim :: string

text \<open>
  The token set returned by \<^verbatim>\<open>xero.apiCallback\<close>. The id token is represented by
  the claims that \<^verbatim>\<open>jwtDecode\<close> reads from it; \<open>None\<close> is a token set whose
  \<^verbatim>\<open>id_token\<close> is absent or does not decode, on which \<^verbatim>\<open>jwtDecode\<close> throws.
\<close>

record token_set =
  id_token :: "id_claims option"
  access_token :: string

type_synonym tenant = string

text \<open>
  \<^verbatim>\<open>userParams\<close> (server.ts, lines 105 to 114): the eight fields that the callback
  passes to \<^verbatim>\<open>user.update\<close> and \<^verbatim>\<open>User.create\<close>. \<open>active_tenant\<close> is
  \<^verbatim>\<open>xero.tenants[0]\<close>, which is \<^verbatim>\<open>undefined\<close> (\<open>None\<close>) on an empty array.
\<close>

record user_params =
  firstName :: string
  lastName :: string
  email :: string
  xero_userid :: string
  decoded_id_token :: id_claims
  token_set :: token_set
  active_tenant :: "tenant option"
  session :: string

text \<open>
  Modelled from the spec: the User model of \<^verbatim>\<open>./models/user\<close> is not among the
  source files. Section 3 of the specification lists its fields: those of
  \<^verbatim>\<open>userParams\<close> and \<open>moreInfo\<close>, the free text of the sign-up form (\<open>None\<close>
  until the form has stored one).
\<close>

record user = user_params +
  moreInfo :: "string option"

datatype error =
  ExchangeError
| ConsentUrlError
| TenantsError
| InvalidTokenError
| DatastoreError
| CouldNotFindUser
| TypeError

text \<open>
  The state that outlives a request: the rows of the User table in insertion order
  (the position of a row is its primary key: no route deletes a row), and
  \<^verbatim>\<open>xero.tenants\<close> of the process-wide client.
\<close>

record world =
  users :: "user list"
  xero_tenants :: "tenant list"

text \<open>
  The six routes of the router (lines 76 to 188); \<open>NoRoute\<close> stands for a request
  that none of them matches.
\<close>

datatype route =
  GetRoot
| GetXeroSignUp
| GetCallback
| GetSignUp
| PostSignUp
| GetLogout
| NoRoute

text \<open>
  What a request carries: the route that its method and path select, \<^verbatim>\<open>req.url\<close>,
  \<^verbatim>\<open>req.signedCookies.recentSession\<close> (\<open>None\<close> when the cookie is absent or its
  signature did not verify) and \<^verbatim>\<open>req.body.moreInfo\<close>.
\<close>

record request =
  route :: route
  url :: string
  signed_recentSession :: "string option"
  body_moreInfo :: "string option"

text \<open>
  The outcomes, during one request, of the calls that leave the program:
  \<^verbatim>\<open>xero.buildConsentUrl()\<close>, \<^verbatim>\<open>xero.apiCallback(url)\<close>,
  \<^verbatim>\<open>xero.updateTenants(false)\<close>, \<^verbatim>\<open>uuid()\<close>, and whether the datastore rejects
  the lookup (\<^verbatim>\<open>findOne\<close>) or the write (\<^verbatim>\<open>update\<close>, \<^verbatim>\<open>create\<close>,
  \<^verbatim>\<open>save\<close>) of this request. \<open>omit_undefined\<close> is the ORM's treatment of an
  \<^verbatim>\<open>undefined\<close> value passed to \<^verbatim>\<open>update\<close>: skipped (the column keeps its
  value) or written as NULL; the version of the ORM is not part of the sources.
\<close>

record env =
  buildConsentUrl :: "error + string"
  apiCallback :: "string \<Rightarrow> error + token_set"
  updateTenants :: "error + tenant list"
  uuid :: string
  findOne_error :: "error option"
  write_error :: "error option"
  omit_undefined :: bool

text \<open>
  The datastore and cookie operations of a handler, in the order it performs them.
  A datastore operation is recorded when it is attempted. \<open>DbSave i m\<close> is the UPDATE
  that \<^verbatim>\<open>user.save()\<close> sends for row \<open>i\<close>, with the \<open>moreInfo\<close> it carries (none
  when the assigned value is \<^verbatim>\<open>undefined\<close>). \<open>SetCookie n v a\<close> is
  \<^verbatim>\<open>res.cookie(n, v, { signed: true, maxAge: a })\<close>.
\<close>

datatype event =
  DbFindByEmail string
| DbFindBySession string
| DbUpdate nat user_params
| DbCreate user_params
| DbSave nat "string option"
| SetCookie string string nat
| ClearCookie string

datatype page =
  Home string
| SignUpForm user "string option"
| ErrorPage error

text \<open>
  \<open>Unhandled e\<close>: the promise of an \<^verbatim>\<open>async\<close> handler was rejected with \<open>e\<close>
  outside any \<^verbatim>\<open>try\<close>: the handler sends nothing and the error is left to the
  framework. \<open>NotFound\<close>: no route matched.
\<close>

datatype reply =
  Render page
| Redirect string
| Unhandled error
| NotFound

record outcome =
  world_after :: world
  events :: "event list"
  reply :: reply

subsection \<open>The datastore\<close>

text \<open>
  \<^verbatim>\<open>User.findOne({ where: ... })\<close>: the first row that satisfies the condition, with
  its position, or \<open>None\<close> (\<^verbatim>\<open>null\<close>).
\<close>

fun findOne :: "(user \<Rightarrow> bool) \<Rightarrow> user list \<Rightarrow> (nat \<times> user) option" where
  "findOne P [] = None"
| "findOne P (u # us) =
     (if P u then Some (0, u)
      else (case findOne P us of None \<Rightarrow> None | Some (i, v) \<Rightarrow> Some (Suc i, v)))"

text \<open>
  \<^verbatim>\<open>user.update(userParams)\<close> on a row: the fields of the parameters are written (an
  undefined \<open>active_tenant\<close> as the ORM treats it, see \<open>omit_undefined\<close>); \<open>moreInfo\<close>,
  which is not among them, is kept.
\<close>

definition update_row :: "bool \<Rightarrow> user \<Rightarrow> user_params \<Rightarrow> user" where
  "update_row omit u p =
     \<lparr> firstName = firstName p, lastName = lastName p, email = email p,
       xero_userid = xero_userid p, decoded_id_token = decoded_id_token p,
       token_set = token_set p,
       active_tenant =
         (case active_tenant p of
            None \<Rightarrow> (if omit then active_tenant u else None)
          | Some t \<Rightarrow> Some t),
       session = session p, moreInfo = moreInfo u \<rparr>"

text \<open>\<^verbatim>\<open>User.create(userParams)\<close>: a new row; \<open>moreInfo\<close> is not among the parameters.\<close>

definition create_row :: "user_params \<Rightarrow> user" where
  "create_row p =
     \<lparr> firstName = firstName p, lastName = lastName p, email = email p,
       xero_userid = xero_userid p, decoded_id_token = decoded_id_token p,
       token_set = token_set p, active_tenant = active_tenant p,
       session = session p, moreInfo = None \<rparr>"

text \<open>\<^verbatim>\<open>findUserWithSession\<close> (server.ts, lines 32 to 34).\<close>

definition findUserWithSession ::
  "env \<Rightarrow> string \<Rightarrow> user list \<Rightarrow> error + (nat \<times> user) option" where
  "findUserWithSession env s us =
     (case findOne_error env of
        Some e \<Rightarrow> Inl e
      | None \<Rightarrow> Inr (findOne (\<lambda>u. session u = s) us))"

text \<open>
  The test \<^verbatim>\<open>if (req.signedCookies.recentSession)\<close>: JavaScript truthiness of a value
  that is a string, \<^verbatim>\<open>undefined\<close> or \<^verbatim>\<open>false\<close>.
\<close>

definition truthy :: "string option \<Rightarrow> bool" where
  "truthy c = (case c of None \<Rightarrow> False | Some s \<Rightarrow> s \<noteq> [])"

subsection \<open>GET / and GET /xero/sign-up (lines 76 to 92)\<close>

definition home :: "env \<Rightarrow> request \<Rightarrow> world \<Rightarrow> outcome" where
  "home env req w =
     (case buildConsentUrl env of
        Inl e \<Rightarrow> \<lparr> world_after = w, events = [], reply = Unhandled e \<rparr>
      | Inr authorizeUrl \<Rightarrow>
          \<lparr> world_after = w, events = [], reply = Render (Home authorizeUrl) \<rparr>)"

definition xero_sign_up :: "env \<Rightarrow> request \<Rightarrow> world \<Rightarrow> outcome" where
  "xero_sign_up env req w =
     (case buildConsentUrl env of
        Inl e \<Rightarrow> \<lparr> world_after = w, events = [], reply = Unhandled e \<rparr>
      | Inr authorizeUrl \<Rightarrow>
          \<lparr> world_after = w, events = [], reply = Redirect authorizeUrl \<rparr>)"

subsection \<open>GET /callback (lines 94 to 137)\<close>

text \<open>\<^verbatim>\<open>xero.tenants[0]\<close>: reading past the end of an array gives \<^verbatim>\<open>undefined\<close>.\<close>

definition first_tenant :: "tenant list \<Rightarrow> tenant option" where
  "first_tenant ts = (case ts of [] \<Rightarrow> None | t # _ \<Rightarrow> Some t)"

definition userParams ::
  "id_claims \<Rightarrow> token_set \<Rightarrow> tenant option \<Rightarrow> string \<Rightarrow> user_params" where
  "userParams decodedIdToken tokenSet activeTenant recentSession =
     \<lparr> firstName = given_name decodedIdToken,
       lastName = family_name decodedIdToken,
       email = email_claim decodedIdToken,
       xero_userid = xero_userid_claim decodedIdToken,
       decoded_id_token = decodedIdToken,
       token_set = tokenSet,
       active_tenant = activeTenant,
       session = recentSession \<rparr>"

text \<open>
  Lines 116 to 126: \<^verbatim>\<open>if (user) user.update(userParams) else User.create(userParams)\<close>.
  The result is the operation attempted and, when the datastore accepted it, the new
  table.
\<close>

definition upsert ::
  "env \<Rightarrow> (nat \<times> user) option \<Rightarrow> user_params \<Rightarrow> user list \<Rightarrow> event \<times> (error + user list)" where
  "upsert env found p us =
     (case found of
        Some (i, u) \<Rightarrow>
          (DbUpdate i p,
           case write_error env of
             Some e \<Rightarrow> Inl e
           | None \<Rightarrow> Inr (us[i := update_row (omit_undefined env) u p]))
      | None \<Rightarrow>
          (DbCreate p,
           case write_error env of
             Some e \<Rightarrow> Inl e
           | None \<Rightarrow> Inr (us @ [create_row p])))"

text \<open>
  The body of the \<^verbatim>\<open>try\<close> block, up to and including \<^verbatim>\<open>res.cookie\<close>: the
  exception thrown (if any), the state and the operations performed so far.
  The two \<^verbatim>\<open>console.log\<close> calls are left out, and so is
  \<^verbatim>\<open>res.status(res.statusCode)\<close> of the \<^verbatim>\<open>catch\<close> block, which sets the status to
  the value it has.
\<close>

definition callback_try :: "env \<Rightarrow> request \<Rightarrow> world \<Rightarrow> error option \<times> world \<times> event list" where
  "callback_try env req w =
     (case apiCallback env (url req) of
        Inl e \<Rightarrow> (Some e, w, [])
      | Inr tokenSet \<Rightarrow>
          (case updateTenants env of
             Inl e \<Rightarrow> (Some e, w, [])
           | Inr ts \<Rightarrow>
               (let w1 = w\<lparr>xero_tenants := ts\<rparr>;
                    activeTenant = first_tenant (xero_tenants w1)
                in case id_token tokenSet of
                     None \<Rightarrow> (Some InvalidTokenError, w1, [])
                   | Some decodedIdToken \<Rightarrow>
                       (let find = DbFindByEmail (email_claim decodedIdToken)
                        in case findOne_error env of
                             Some e \<Rightarrow> (Some e, w1, [find])
                           | None \<Rightarrow>
                               (let user = findOne (\<lambda>u. email u = email_claim decodedIdToken) (users w1);
                                    recentSession = uuid env;
                                    params = userParams decodedIdToken tokenSet activeTenant recentSession
                                in case upsert env user params (users w1) of
                                     (op, Inl e) \<Rightarrow> (Some e, w1, [find, op])
                                   | (op, Inr us) \<Rightarrow>
                                       (None, w1\<lparr>users := us\<rparr>,
                                        [find, op,
                                         SetCookie ''recentSession'' recentSession (1 * 60 * 60 * 1000)]))))))"

definition callback :: "env \<Rightarrow> request \<Rightarrow> world \<Rightarrow> outcome" where
  "callback env req w =
     (case callback_try env req w of
        (None, w', evs) \<Rightarrow>
          \<lparr> world_after = w', events = evs, reply = Redirect ''/sign-up'' \<rparr>
      | (Some e, w', evs) \<Rightarrow>
          \<lparr> world_after = w', events = evs, reply = Render (ErrorPage e) \<rparr>)"

subsection \<open>GET /sign-up and POST /sign-up (lines 139 to 181)\<close>

definition get_sign_up :: "env \<Rightarrow> request \<Rightarrow> world \<Rightarrow> outcome" where
  "get_sign_up env req w =
     (if truthy (signed_recentSession req) then
        (let s = the (signed_recentSession req)
         in case findUserWithSession env s (users w) of
              Inl e \<Rightarrow>
                \<lparr> world_after = w, events = [DbFindBySession s], reply = Render (ErrorPage e) \<rparr>
            | Inr None \<Rightarrow>
                \<lparr> world_after = w, events = [DbFindBySession s],
                  reply = Render (ErrorPage CouldNotFindUser) \<rparr>
            | Inr (Some (i, user)) \<Rightarrow>
                \<lparr> world_after = w, events = [DbFindBySession s],
                  reply = Render (SignUpForm user None) \<rparr>)
      else \<lparr> world_after = w, events = [], reply = Redirect ''/'' \<rparr>)"

text \<open>
  In the POST handler a missing user is not tested for: \<^verbatim>\<open>user.moreInfo = ...\<close> on
  \<^verbatim>\<open>null\<close> throws a TypeError inside the \<^verbatim>\<open>try\<close>. \<^verbatim>\<open>user.save()\<close> sends
  an UPDATE only for a field whose value changed, and an \<^verbatim>\<open>undefined\<close> value is
  not part of the UPDATE it sends: submitting the stored value sends nothing and so
  cannot be rejected, and a request without \<^verbatim>\<open>moreInfo\<close> leaves the stored value
  as it is (the UPDATE it may send carries no \<open>moreInfo\<close>). The page is rendered from
  the object in memory, which holds the assigned value.
\<close>

definition post_sign_up :: "env \<Rightarrow> request \<Rightarrow> world \<Rightarrow> outcome" where
  "post_sign_up env req w =
     (if truthy (signed_recentSession req) then
        (let s = the (signed_recentSession req)
         in case findUserWithSession env s (users w) of
              Inl e \<Rightarrow>
                \<lparr> world_after = w, events = [DbFindBySession s], reply = Render (ErrorPage e) \<rparr>
            | Inr None \<Rightarrow>
                \<lparr> world_after = w, events = [DbFindBySession s],
                  reply = Render (ErrorPage TypeError) \<rparr>
            | Inr (Some (i, u)) \<Rightarrow>
                (let user = u\<lparr>moreInfo := body_moreInfo req\<rparr>;
                     updated = Render (SignUpForm user (Some ''User updated''));
                     evs = [DbFindBySession s, DbSave i (body_moreInfo req)]
                 in case body_moreInfo req of
                      None \<Rightarrow>
                        (case write_error env of
                           Some e \<Rightarrow>
                             \<lparr> world_after = w, events = evs, reply = Render (ErrorPage e) \<rparr>
                         | None \<Rightarrow> \<lparr> world_after = w, events = evs, reply = updated \<rparr>)
                    | Some v \<Rightarrow>
                        if moreInfo u = Some v then
                          \<lparr> world_after = w, events = [DbFindBySession s], reply = updated \<rparr>
                        else
                          (case write_error env of
                             Some e \<Rightarrow>
                               \<lparr> world_after = w, events = evs, reply = Render (ErrorPage e) \<rparr>
                           | None \<Rightarrow>
                               \<lparr> world_after = w\<lparr>users := (users w)[i := user]\<rparr>,
                                 events = evs, reply = updated \<rparr>)))
      else \<lparr> world_after = w, events = [], reply = Redirect ''/'' \<rparr>)"

subsection \<open>GET /logout (lines 183 to 188)\<close>

definition logout :: "request \<Rightarrow> world \<Rightarrow> outcome" where
  "logout req w =
     \<lparr> world_after = w,
       events = (if truthy (signed_recentSession req) then [ClearCookie ''recentSession''] else []),
       reply = Redirect ''/'' \<rparr>"

subsection \<open>The router, and requests in sequence\<close>

definition handle :: "env \<Rightarrow> request \<Rightarrow> world \<Rightarrow> outcome" where
  "handle env req w =
     (case route req of
        GetRoot \<Rightarrow> home env req w
      | GetXeroSignUp \<Rightarrow> xero_sign_up env req w
      | GetCallback \<Rightarrow> callback env req w
      | GetSignUp \<Rightarrow> get_sign_up env req w
      | PostSignUp \<Rightarrow> post_sign_up env req w
      | GetLogout \<Rightarrow> logout req w
      | NoRoute \<Rightarrow> \<lparr> world_after = w, events = [], reply = NotFound \<rparr>)"

text \<open>Callback handlings completed one after the other.\<close>

fun callbacks :: "(env \<times> request) list \<Rightarrow> world \<Rightarrow> world" where
  "callbacks [] w = w"
| "callbacks ((env, req) # rs) w = callbacks rs (world_after (callback env req w))"

text \<open>Requests to any route, handled one after the other.\<close>

fun serve :: "(env \<times> request) list \<Rightarrow> world \<Rightarrow> world" where
  "serve [] w = w"
| "serve ((env, req) # rs) w = serve rs (world_after (handle env req w))"

subsection \<open>Auxiliary notions\<close>

text \<open>The table after an accepted upsert, and the operation an upsert attempts.\<close>

definition upserted :: "env \<Rightarrow> (nat \<times> user) option \<Rightarrow> user_params \<Rightarrow> user list \<Rightarrow> user list" where
  "upserted env found p us =
     (case found of
        Some (i, u) \<Rightarrow> us[i := update_row (omit_undefined env) u p]
      | None \<Rightarrow> us @ [create_row p])"

definition upsert_event :: "(nat \<times> user) option \<Rightarrow> user_params \<Rightarrow> event" where
  "upsert_event found p = (case found of Some (i, u) \<Rightarrow> DbUpdate i p | None \<Rightarrow> DbCreate p)"

fun is_SetCookie :: "event \<Rightarrow> bool" where
  "is_SetCookie (SetCookie n v m) = True"
| "is_SetCookie _ = False"

fun is_upsert :: "event \<Rightarrow> bool" where
  "is_upsert (DbUpdate i p) = True"
| "is_upsert (DbCreate p) = True"
| "is_upsert _ = False"

text \<open>The parameters an upsert operation was called with.\<close>

fun upsert_params :: "event \<Rightarrow> user_params option" where
  "upsert_params (DbUpdate i p) = Some p"
| "upsert_params (DbCreate p) = Some p"
| "upsert_params _ = None"

subsection \<open>Example inputs\<close>

definition alice :: id_claims where
  "alice = \<lparr> given_name = ''Alice'', family_name = ''Lee'',
             email_claim = ''alice@example.com'', xero_userid_claim = ''x-1'' \<rparr>"

definition alicia :: id_claims where
  "alicia = alice\<lparr> given_name := ''Alicia'' \<rparr>"

definition tokens_of :: "id_claims \<Rightarrow> token_set" where
  "tokens_of d = \<lparr> id_token = Some d, access_token = ''at'' \<rparr>"

text \<open>An environment in which every call succeeds.\<close>

definition env_ok :: "id_claims \<Rightarrow> tenant list \<Rightarrow> string \<Rightarrow> env" where
  "env_ok d ts sid =
     \<lparr> buildConsentUrl = Inr ''https://login.xero.com/identity/connect/authorize'',
       apiCallback = (\<lambda>u. Inr (tokens_of d)),
       updateTenants = Inr ts,
       uuid = sid,
       findOne_error = None,
       write_error = None,
       omit_undefined = True \<rparr>"

definition req_callback :: request where
  "req_callback =
     \<lparr> route = GetCallback, url = ''/callback?code=c&state=s'',
       signed_recentSession = None, body_moreInfo = None \<rparr>"

text \<open>A request to the route \<open>r\<close> with the signed cookie \<open>c\<close> and the form field \<open>b\<close>.\<close>

definition req_to :: "route \<Rightarrow> string option \<Rightarrow> string option \<Rightarrow> request" where
  "req_to r c b = \<lparr> route = r, url = [], signed_recentSession = c, body_moreInfo = b \<rparr>"

definition world0 :: world where
  "world0 = \<lparr> users = [], xero_tenants = [] \<rparr>"

text \<open>The table after Alice's first callback, with session \<open>''s1''\<close>.\<close>

definition world1 :: world where
  "world1 = world_after (callback (env_ok alice [] ''s1'') req_callback world0)"

text \<open>The table after Alice has then submitted the form with her cookie.\<close>

definition world2 :: world where
  "world2 = world_after (post_sign_up (env_ok alice [] ''unused'')
               (req_to PostSignUp (Some ''s1'') (Some ''Interested in Module X'')) world1)"



text \<open>The datastore rejects the write; the consent URL cannot be built.\<close>

definition env_write_fails :: env where
  "env_write_fails = (env_ok alice [] ''s1'')\<lparr> write_error := Some DatastoreError \<rparr>"

definition env_consent_fails :: env where
  "env_consent_fails = (env_ok alice [] ''s1'')\<lparr> buildConsentUrl := Inl ConsentUrlError \<rparr>"

lemmas example_defs =
  alice_def alicia_def tokens_of_def env_ok_def req_callback_def req_to_def world0_def world1_def

lemmas handler_defs =
  callback_def callback_try_def upsert_def first_tenant_def userParams_def update_row_def
  create_row_def Let_def

section \<open>Facts about the datastore operations\<close>

lemma findOne_Some:
  "findOne P us = Some (i, u) \<Longrightarrow> i < length us \<and> us ! i = u \<and> P u"
  by (induction us arbitrary: i) (auto split: if_splits option.splits)

lemma findOne_None: "findOne P us = None \<longleftrightarrow> (\<forall>u \<in> set us. \<not> P u)"
  by (induction us) (auto split: option.splits)

lemma email_update_row [simp]: "email (update_row b u p) = email p"
  by (simp add: update_row_def)

lemma email_create_row [simp]: "email (create_row p) = email p"
  by (simp add: create_row_def)

lemma email_userParams [simp]: "email (userParams d t a s) = email_claim d"
  by (simp add: userParams_def)

lemma distinct_count_le_1:
  "distinct (map f xs) \<Longrightarrow> length (filter (\<lambda>u. f u = E) xs) \<le> 1"
  by (induction xs) (auto simp: filter_empty_conv image_iff)

lemma upsert_eq:
  "upsert env found p us =
     (upsert_event found p,
      case write_error env of Some e \<Rightarrow> Inl e | None \<Rightarrow> Inr (upserted env found p us))"
  by (simp add: upsert_def upsert_event_def upserted_def split: option.splits)

section \<open>The callback, case by case\<close>

text \<open>
  A callback whose \<^verbatim>\<open>try\<close> block runs to its end: every call succeeded, the table is
  the upserted one, and the operations are the lookup, the upsert and the cookie.
\<close>

lemma callback_try_ok:
  assumes "callback_try env req w = (None, w', evs)"
  shows "\<exists>tokenSet ts d.
           apiCallback env (url req) = Inr tokenSet \<and> updateTenants env = Inr ts
         \<and> id_token tokenSet = Some d \<and> findOne_error env = None \<and> write_error env = None
         \<and> w' = \<lparr> users = upserted env (findOne (\<lambda>u. email u = email_claim d) (users w))
                             (userParams d tokenSet (first_tenant ts) (uuid env)) (users w),
                  xero_tenants = ts \<rparr>
         \<and> evs = [DbFindByEmail (email_claim d),
                  upsert_event (findOne (\<lambda>u. email u = email_claim d) (users w))
                             (userParams d tokenSet (first_tenant ts) (uuid env)),
                  SetCookie ''recentSession'' (uuid env) 3600000]"
  using assms
  by (auto simp: callback_try_def upsert_eq Let_def split: sum.splits option.splits)

text \<open>A callback whose \<^verbatim>\<open>try\<close> block throws: the table is untouched, no cookie is set.\<close>

lemma callback_try_fail:
  assumes "callback_try env req w = (Some e, w', evs)"
  shows "users w' = users w \<and> (\<forall>n v m. SetCookie n v m \<notin> set evs)"
  using assms
  by (auto simp: callback_try_def upsert_eq upsert_event_def Let_def
      split: sum.splits option.splits)

section \<open>One row per email\<close>

lemma upserted_distinct_email:
  assumes "distinct (map email us)"
  shows "distinct (map email (upserted env (findOne (\<lambda>u. email u = email p) us) p us))"
proof (cases "findOne (\<lambda>u. email u = email p) us")
  case None
  then have "\<forall>u \<in> set us. email u \<noteq> email p"
    by (simp add: findOne_None)
  with assms None show ?thesis
    by (auto simp: upserted_def)
next
  case (Some a)
  then obtain i u where a: "a = (i, u)" by (cases a)
  with Some have "i < length us" and "email (us ! i) = email p"
    using findOne_Some [of "\<lambda>u. email u = email p" us i u] by auto
  then have "map email (us[i := update_row (omit_undefined env) u p]) = map email us"
    by (simp add: map_update list_update_same_conv)
  with assms Some a show ?thesis
    by (simp add: upserted_def)
qed

lemma callback_distinct_email:
  assumes "distinct (map email (users w))"
  shows "distinct (map email (users (world_after (callback env req w))))"
proof (cases "callback_try env req w")
  case (fields r w' evs)
  show ?thesis
  proof (cases r)
    case None
    from callback_try_ok [OF fields [unfolded None]] obtain tokenSet ts d where
      "users w' = upserted env (findOne (\<lambda>u. email u = email_claim d) (users w))
                    (userParams d tokenSet (first_tenant ts) (uuid env)) (users w)"
      by auto
    with upserted_distinct_email [OF assms, of env "userParams d tokenSet (first_tenant ts) (uuid env)"]
    have "distinct (map email (users w'))" by simp
    with fields None show ?thesis by (simp add: callback_def)
  next
    case (Some e)
    from callback_try_fail [OF fields [unfolded Some]] have "users w' = users w" by simp
    with assms fields Some show ?thesis by (simp add: callback_def)
  qed
qed

lemma callbacks_distinct_email:
  "distinct (map email (users w)) \<Longrightarrow> distinct (map email (users (callbacks rs w)))"
proof (induction rs arbitrary: w)
  case Nil
  then show ?case by simp
next
  case (Cons r rs)
  obtain env req where r: "r = (env, req)" by (cases r)
  from Cons.prems have "distinct (map email (users (world_after (callback env req w))))"
    by (rule callback_distinct_email)
  then have "distinct (map email (users (callbacks rs (world_after (callback env req w)))))"
    by (rule Cons.IH)
  with r show ?case by simp
qed

lemma callback_users_cases:
  "users (world_after (callback env req w)) = users w
   \<or> (\<exists>i u p. findOne (\<lambda>v. email v = email p) (users w) = Some (i, u)
        \<and> users (world_after (callback env req w)) =
            (users w)[i := update_row (omit_undefined env) u p])
   \<or> (\<exists>p. findOne (\<lambda>v. email v = email p) (users w) = None
        \<and> users (world_after (callback env req w)) = users w @ [create_row p])"
proof (cases "callback_try env req w")
  case (fields r w' evs)
  show ?thesis
  proof (cases r)
    case None
    from callback_try_ok [OF fields [unfolded None]] obtain tokenSet ts d where
      w': "users w' = upserted env (findOne (\<lambda>u. email u = email_claim d) (users w))
                    (userParams d tokenSet (first_tenant ts) (uuid env)) (users w)"
      by auto
    let ?p = "userParams d tokenSet (first_tenant ts) (uuid env)"
    have out: "users (world_after (callback env req w)) = users w'"
      using fields None by (simp add: callback_def)
    show ?thesis
    proof (cases "findOne (\<lambda>u. email u = email ?p) (users w)")
      case None
      with w' out have "users (world_after (callback env req w)) = users w @ [create_row ?p]"
        by (simp add: upserted_def)
      with None show ?thesis by blast
    next
      case (Some a)
      then obtain i u where "findOne (\<lambda>u. email u = email ?p) (users w) = Some (i, u)"
        by (cases a) simp
      moreover from this w' out
      have "users (world_after (callback env req w)) =
              (users w)[i := update_row (omit_undefined env) u ?p]"
        by (simp add: upserted_def)
      ultimately show ?thesis by blast
    qed
  next
    case (Some e)
    from callback_try_fail [OF fields [unfolded Some]] have "users w' = users w" by simp
    with fields Some show ?thesis by (simp add: callback_def)
  qed
qed

text \<open>Two logins of the same email, the second with a changed given name: one row.\<close>

lemma two_callbacks_run:
  "map firstName (users (callbacks [(env_ok alice [] ''s1'', req_callback),
                                    (env_ok alicia [] ''s2'', req_callback)] world0))
   = [''Alicia'']"
  by (simp add: handler_defs example_defs)

text \<open>
  C1. From a table with no two rows of the same email (the empty table is one), after
  any sequence of callback handlings completed one after the other, whatever the
  outcomes of their external calls, at most one row has the email \<open>E\<close>. A single
  callback leaves the table as it is, or updates in place the row that the lookup by
  exact email found, or appends a row when that lookup found none.
\<close>

theorem callback_one_row_per_email:
  assumes "distinct (map email (users w))"
  shows "length (filter (\<lambda>u. email u = E) (users (callbacks rs w))) \<le> 1
       \<and> (users (world_after (callback env req w)) = users w
          \<or> (\<exists>i u p. findOne (\<lambda>v. email v = email p) (users w) = Some (i, u)
               \<and> users (world_after (callback env req w)) =
                   (users w)[i := update_row (omit_undefined env) u p])
          \<or> (\<exists>p. findOne (\<lambda>v. email v = email p) (users w) = None
               \<and> users (world_after (callback env req w)) = users w @ [create_row p]))"
proof -
  have "length (filter (\<lambda>u. email u = E) (users (callbacks rs w))) \<le> 1"
    by (rule distinct_count_le_1 [OF callbacks_distinct_email [OF assms]])
  with callback_users_cases [of env req w] show ?thesis
    by blast
qed

theorem callback_one_row_per_email_witness:
  "distinct (map email (users world0))
   \<and> length (filter (\<lambda>u. email u = ''alice@example.com'')
        (users (callbacks [(env_ok alice [] ''s1'', req_callback),
                           (env_ok alicia [] ''s2'', req_callback)] world0))) \<le> 1
   \<and> map firstName (users (callbacks [(env_ok alice [] ''s1'', req_callback),
                                       (env_ok alicia [] ''s2'', req_callback)] world0))
       = [''Alicia'']"
proof -
  have h: "distinct (map email (users world0))"
    by (simp add: world0_def)
  from callback_one_row_per_email [OF h, of "''alice@example.com''"
      "[(env_ok alice [] ''s1'', req_callback), (env_ok alicia [] ''s2'', req_callback)]"
      "env_ok alice [] ''s1''" req_callback]
  have "length (filter (\<lambda>u. email u = ''alice@example.com'')
        (users (callbacks [(env_ok alice [] ''s1'', req_callback),
                           (env_ok alicia [] ''s2'', req_callback)] world0))) \<le> 1"
    by (rule conjunct1)
  with h two_callbacks_run show ?thesis
    by simp
qed

section \<open>The session identifier\<close>

lemma findOne_update:
  "findOne P us = Some (i, u) \<Longrightarrow> P x \<Longrightarrow> findOne P (us[i := x]) = Some (i, x)"
proof (induction us arbitrary: i)
  case Nil
  then show ?case by simp
next
  case (Cons a us)
  show ?case
  proof (cases "P a")
    case True
    with Cons.prems show ?thesis by auto
  next
    case False
    with Cons.prems obtain j where j: "i = Suc j" "findOne P us = Some (j, u)"
      by (auto split: option.splits)
    from Cons.IH [OF j(2) Cons.prems(2)] False j show ?thesis by simp
  qed
qed


lemma session_update_row [simp]: "session (update_row b u p) = session p"
  by (simp add: update_row_def)

lemma session_create_row [simp]: "session (create_row p) = session p"
  by (simp add: create_row_def)

lemma session_userParams [simp]: "session (userParams d t a s) = s"
  by (simp add: userParams_def)



text \<open>
  Sessions stay pairwise different as long as every \<^verbatim>\<open>uuid()\<close> is new to the table.
\<close>

lemma callback_distinct_session:
  assumes ds: "distinct (map session (users w))" and fresh: "uuid env \<notin> session ` set (users w)"
  shows "distinct (map session (users (world_after (callback env req w))))"
proof (cases "callback_try env req w")
  case (fields r w' evs)
  show ?thesis
  proof (cases r)
    case None
    from callback_try_ok [OF fields [unfolded None]] obtain tokenSet ts d where
      w': "users w' = upserted env (findOne (\<lambda>u. email u = email_claim d) (users w))
                    (userParams d tokenSet (first_tenant ts) (uuid env)) (users w)"
      by auto
    let ?p = "userParams d tokenSet (first_tenant ts) (uuid env)"
    have "distinct (map session (users w'))"
    proof (cases "findOne (\<lambda>u. email u = email_claim d) (users w)")
      case None
      with ds fresh w' show ?thesis by (simp add: upserted_def)
    next
      case (Some a)
      obtain i u where a: "a = (i, u)" by (cases a)
      from fresh have "uuid env \<notin> set (map session (users w)) - {map session (users w) ! i}"
        by simp
      with ds have "distinct ((map session (users w))[i := uuid env])"
        by (rule distinct_list_update)
      with Some a w' show ?thesis by (simp add: upserted_def map_update)
    qed
    with fields None show ?thesis by (simp add: callback_def)
  next
    case (Some e)
    from callback_try_fail [OF fields [unfolded Some]] have "users w' = users w" by simp
    with ds fields Some show ?thesis by (simp add: callback_def)
  qed
qed


lemma world1_users:
  "\<exists>r. users world1 = [r] \<and> session r = ''s1'' \<and> email r = ''alice@example.com''"
  by (simp add: handler_defs example_defs)



section \<open>Failure of the upsert\<close>

text \<open>
  C3. If the datastore rejects the update or create of a callback, the handler renders
  the error page with that error, sets no cookie and leaves the table as it was. In
  every callback that sets a cookie the write was accepted, and the cookie is the
  operation that follows the upsert.
\<close>

theorem callback_upsert_failure_no_cookie:
  "(write_error env = Some e \<and> (\<exists>ev \<in> set (events (callback env req w)). is_upsert ev)
      \<longrightarrow> reply (callback env req w) = Render (ErrorPage e)
        \<and> filter is_SetCookie (events (callback env req w)) = []
        \<and> users (world_after (callback env req w)) = users w)
   \<and> (filter is_SetCookie (events (callback env req w)) \<noteq> []
      \<longrightarrow> write_error env = None
        \<and> reply (callback env req w) = Redirect ''/sign-up''
        \<and> (\<exists>find up. is_upsert up
              \<and> events (callback env req w)
                  = [find, up, SetCookie ''recentSession'' (uuid env) 3600000]))"
  by (auto simp: callback_def callback_try_def upsert_eq upsert_event_def Let_def
      split: sum.splits option.splits)

theorem callback_upsert_failure_no_cookie_witness:
  "write_error env_write_fails = Some DatastoreError
   \<and> events (callback env_write_fails req_callback world0)
       = [DbFindByEmail ''alice@example.com'',
          DbCreate (userParams alice (tokens_of alice) None ''s1'')]
   \<and> reply (callback env_write_fails req_callback world0) = Render (ErrorPage DatastoreError)
   \<and> filter is_SetCookie (events (callback env_write_fails req_callback world0)) = []
   \<and> users (world_after (callback env_write_fails req_callback world0)) = users world0
   \<and> filter is_SetCookie (events (callback (env_ok alice [] ''s1'') req_callback world0)) \<noteq> []
   \<and> reply (callback (env_ok alice [] ''s1'') req_callback world0) = Redirect ''/sign-up''"
proof -
  have w: "write_error env_write_fails = Some DatastoreError"
    by (simp add: env_write_fails_def)
  have evs: "events (callback env_write_fails req_callback world0)
       = [DbFindByEmail ''alice@example.com'',
          DbCreate (userParams alice (tokens_of alice) None ''s1'')]"
    by (simp add: handler_defs example_defs env_write_fails_def)
  have c: "filter is_SetCookie (events (callback (env_ok alice [] ''s1'') req_callback world0)) \<noteq> []"
    by (simp add: handler_defs example_defs)
  from callback_upsert_failure_no_cookie [of env_write_fails DatastoreError req_callback world0] w evs
  have "reply (callback env_write_fails req_callback world0) = Render (ErrorPage DatastoreError)
        \<and> filter is_SetCookie (events (callback env_write_fails req_callback world0)) = []
        \<and> users (world_after (callback env_write_fails req_callback world0)) = users world0"
    by simp
  moreover from callback_upsert_failure_no_cookie [of "env_ok alice [] ''s1''" e req_callback world0] c
  have "reply (callback (env_ok alice [] ''s1'') req_callback world0) = Redirect ''/sign-up''"
    by blast
  ultimately show ?thesis using w evs c by blast
qed

section \<open>The sign-up gate\<close>

text \<open>
  C4. A request to GET /sign-up or POST /sign-up whose signed cookies hold no
  \<^verbatim>\<open>recentSession\<close> (or a value that is not truthy) is answered with a redirect to
  \<^verbatim>\<open>/\<close>: no datastore operation, no change of state, no error page.
\<close>

theorem sign_up_without_cookie_redirects:
  assumes "route req = GetSignUp \<or> route req = PostSignUp"
    and "\<not> truthy (signed_recentSession req)"
  shows "handle env req w = \<lparr> world_after = w, events = [], reply = Redirect ''/'' \<rparr>"
  using assms by (auto simp: handle_def get_sign_up_def post_sign_up_def)

theorem sign_up_without_cookie_redirects_witness:
  "route (req_to GetSignUp None None) = GetSignUp
   \<and> \<not> truthy (signed_recentSession (req_to GetSignUp None None))
   \<and> handle (env_ok alice [] ''s2'') (req_to GetSignUp None None) world1
       = \<lparr> world_after = world1, events = [], reply = Redirect ''/'' \<rparr>
   \<and> handle (env_ok alice [] ''s2'') (req_to PostSignUp None (Some ''x'')) world1
       = \<lparr> world_after = world1, events = [], reply = Redirect ''/'' \<rparr>"
proof -
  have g: "route (req_to GetSignUp None None) = GetSignUp"
    "\<not> truthy (signed_recentSession (req_to GetSignUp None None))"
    by (simp_all add: req_to_def truthy_def)
  have p: "route (req_to PostSignUp None (Some ''x'')) = PostSignUp"
    "\<not> truthy (signed_recentSession (req_to PostSignUp None (Some ''x'')))"
    by (simp_all add: req_to_def truthy_def)
  from sign_up_without_cookie_redirects [OF disjI1 [OF g(1)] g(2)]
    sign_up_without_cookie_redirects [OF disjI2 [OF p(1)] p(2)] g
  show ?thesis by blast
qed

text \<open>
  C5. A session identifier \<open>S\<close> (a non-empty string, as \<^verbatim>\<open>uuid()\<close> returns and as
  the handlers' test of the cookie requires) that arrives in the signed cookie and is
  the session of no row: GET /sign-up and POST /sign-up both render the error page
  (with \<^verbatim>\<open>"Could not find user"\<close>, with the TypeError of the assignment to
  \<^verbatim>\<open>null\<close>, or with the datastore's error if the lookup itself failed), and never
  redirect to \<^verbatim>\<open>/\<close>.
\<close>

theorem sign_up_unknown_session_error_page:
  assumes "signed_recentSession req = Some S" and "S \<noteq> []"
    and "S \<notin> session ` set (users w)"
  shows "reply (get_sign_up env req w)
           = Render (ErrorPage (case findOne_error env of None \<Rightarrow> CouldNotFindUser | Some e \<Rightarrow> e))
       \<and> reply (post_sign_up env req w)
           = Render (ErrorPage (case findOne_error env of None \<Rightarrow> TypeError | Some e \<Rightarrow> e))
       \<and> reply (get_sign_up env req w) \<noteq> Redirect ''/''
       \<and> reply (post_sign_up env req w) \<noteq> Redirect ''/''
       \<and> world_after (post_sign_up env req w) = w"
proof -
  from assms(3) have "findOne (\<lambda>u. session u = S) (users w) = None"
    by (auto simp: findOne_None)
  with assms(1,2) show ?thesis
    by (simp add: get_sign_up_def post_sign_up_def findUserWithSession_def truthy_def
        split: option.splits)
qed

theorem sign_up_unknown_session_error_page_witness:
  "signed_recentSession (req_to GetSignUp (Some ''stale'') None) = Some ''stale''
   \<and> ''stale'' \<noteq> [] \<and> ''stale'' \<notin> session ` set (users world1)
   \<and> reply (get_sign_up (env_ok alice [] ''s2'') (req_to GetSignUp (Some ''stale'') None) world1)
       = Render (ErrorPage CouldNotFindUser)
   \<and> reply (post_sign_up (env_ok alice [] ''s2'') (req_to GetSignUp (Some ''stale'') None) world1)
       = Render (ErrorPage TypeError)"
proof -
  obtain r where r: "users world1 = [r]" "session r = ''s1''"
    using world1_users by blast
  have h: "signed_recentSession (req_to GetSignUp (Some ''stale'') None) = Some ''stale''"
    "''stale'' \<noteq> []" "''stale'' \<notin> session ` set (users world1)"
    by (simp_all add: req_to_def r)
  from sign_up_unknown_session_error_page [OF h, of "env_ok alice [] ''s2''"] h
  show ?thesis by (simp add: env_ok_def)
qed

section \<open>Logout\<close>

text \<open>
  C6, as amended. GET /logout leaves the state as it is and redirects to \<^verbatim>\<open>/\<close>; its
  only possible operation is clearing \<^verbatim>\<open>recentSession\<close>, and it clears the cookie
  exactly when the request carries a truthy signed \<^verbatim>\<open>recentSession\<close>.
\<close>

theorem logout_clears_presented_cookie:
  assumes "route req = GetLogout"
  shows "world_after (handle env req w) = w
       \<and> reply (handle env req w) = Redirect ''/''
       \<and> (\<forall>ev \<in> set (events (handle env req w)). ev = ClearCookie ''recentSession'')
       \<and> (ClearCookie ''recentSession'' \<in> set (events (handle env req w))
            \<longleftrightarrow> truthy (signed_recentSession req))"
  using assms by (simp add: handle_def logout_def)

theorem logout_clears_presented_cookie_witness:
  "route (req_to GetLogout (Some ''s1'') None) = GetLogout
   \<and> truthy (signed_recentSession (req_to GetLogout (Some ''s1'') None))
   \<and> world_after (handle (env_ok alice [] ''s2'') (req_to GetLogout (Some ''s1'') None) world1)
       = world1
   \<and> reply (handle (env_ok alice [] ''s2'') (req_to GetLogout (Some ''s1'') None) world1)
       = Redirect ''/''
   \<and> ClearCookie ''recentSession''
       \<in> set (events (handle (env_ok alice [] ''s2'') (req_to GetLogout (Some ''s1'') None) world1))"
proof -
  have h: "route (req_to GetLogout (Some ''s1'') None) = GetLogout"
    "truthy (signed_recentSession (req_to GetLogout (Some ''s1'') None))"
    by (simp_all add: req_to_def truthy_def)
  from logout_clears_presented_cookie [OF h(1), of "env_ok alice [] ''s2''" world1] h
  show ?thesis by blast
qed

text \<open>
  C6 as stated fails: a logout request without a signed \<^verbatim>\<open>recentSession\<close> does not
  clear the cookie.
\<close>

theorem logout_clears_unconditionally_counterexample:
  "ClearCookie ''recentSession''
     \<notin> set (events (handle (env_ok alice [] ''s2'') (req_to GetLogout None None) world1))"
  by (simp add: handle_def logout_def req_to_def truthy_def)

section \<open>The form field\<close>

lemma moreInfo_update_row [simp]: "moreInfo (update_row b u p) = moreInfo u"
  by (simp add: update_row_def)

lemma moreInfo_create_row [simp]: "moreInfo (create_row p) = None"
  by (simp add: create_row_def)

lemma callback_moreInfo:
  "map moreInfo (users (world_after (callback env req w))) = map moreInfo (users w)
   \<or> map moreInfo (users (world_after (callback env req w))) = map moreInfo (users w) @ [None]"
proof -
  from callback_users_cases [of env req w]
  consider "users (world_after (callback env req w)) = users w"
    | i u p where "findOne (\<lambda>v. email v = email p) (users w) = Some (i, u)"
        "users (world_after (callback env req w)) = (users w)[i := update_row (omit_undefined env) u p]"
    | p where "users (world_after (callback env req w)) = users w @ [create_row p]"
    by blast
  then show ?thesis
  proof cases
    case 1
    then show ?thesis by simp
  next
    case 2
    from findOne_Some [OF 2(1)] have "i < length (users w)" "users w ! i = u" by simp_all
    then have "map moreInfo ((users w)[i := update_row (omit_undefined env) u p]) = map moreInfo (users w)"
      by (simp add: map_update list_update_same_conv)
    with 2(2) show ?thesis by simp
  next
    case 3
    then show ?thesis by simp
  qed
qed

lemma handle_users_unchanged:
  assumes "route req \<noteq> GetCallback"
    and "\<not> (route req = PostSignUp \<and> truthy (signed_recentSession req))"
  shows "users (world_after (handle env req w)) = users w"
  using assms
  by (auto simp: handle_def home_def xero_sign_up_def get_sign_up_def post_sign_up_def logout_def
      findUserWithSession_def Let_def split: route.splits sum.splits option.splits)

text \<open>
  C7. A callback leaves the \<open>moreInfo\<close> of every row as it was; the only other thing it
  can do to that column is to append the empty \<open>moreInfo\<close> of the row it creates.
  \<^verbatim>\<open>user.update(userParams)\<close> keeps \<open>moreInfo\<close> (the parameters have no such field).
  The same holds for every request other than a POST /sign-up that carries a truthy
  signed cookie.
\<close>

theorem moreInfo_written_only_by_form:
  "(map moreInfo (users (world_after (callback env req w))) = map moreInfo (users w)
      \<or> map moreInfo (users (world_after (callback env req w))) = map moreInfo (users w) @ [None])
   \<and> (\<forall>u p b. moreInfo (update_row b u p) = moreInfo u)
   \<and> (\<not> (route req = PostSignUp \<and> truthy (signed_recentSession req))
        \<longrightarrow> map moreInfo (users (world_after (handle env req w))) = map moreInfo (users w)
          \<or> map moreInfo (users (world_after (handle env req w))) = map moreInfo (users w) @ [None])"
proof -
  have "map moreInfo (users (world_after (handle env req w))) = map moreInfo (users w)
          \<or> map moreInfo (users (world_after (handle env req w))) = map moreInfo (users w) @ [None]"
    if np: "\<not> (route req = PostSignUp \<and> truthy (signed_recentSession req))"
  proof (cases "route req = GetCallback")
    case True
    then have "handle env req w = callback env req w"
      by (simp add: handle_def)
    with callback_moreInfo [of env req w] show ?thesis by simp
  next
    case False
    from handle_users_unchanged [OF False np] show ?thesis by simp
  qed
  with callback_moreInfo [of env req w] show ?thesis by simp
qed

lemma world2_moreInfo: "map moreInfo (users world2) = [Some ''Interested in Module X'']"
  by (simp add: world2_def post_sign_up_def findUserWithSession_def truthy_def handler_defs
      example_defs)

lemma world2_callback_moreInfo:
  "map moreInfo (users (world_after (callback (env_ok alicia [] ''s2'') req_callback world2)))
     = [Some ''Interested in Module X'']"
  by (simp add: world2_def post_sign_up_def findUserWithSession_def truthy_def handler_defs
      example_defs)

theorem moreInfo_written_only_by_form_witness:
  "\<not> (route req_callback = PostSignUp \<and> truthy (signed_recentSession req_callback))
   \<and> (map moreInfo (users (world_after (handle (env_ok alicia [] ''s2'') req_callback world2)))
         = map moreInfo (users world2)
       \<or> map moreInfo (users (world_after (handle (env_ok alicia [] ''s2'') req_callback world2)))
         = map moreInfo (users world2) @ [None])
   \<and> map moreInfo (users world2) = [Some ''Interested in Module X'']
   \<and> map moreInfo (users (world_after (callback (env_ok alicia [] ''s2'') req_callback world2)))
       = [Some ''Interested in Module X'']"
proof -
  have h: "\<not> (route req_callback = PostSignUp \<and> truthy (signed_recentSession req_callback))"
    by (simp add: req_callback_def)
  from moreInfo_written_only_by_form [of "env_ok alicia [] ''s2''" req_callback world2] h
  have "map moreInfo (users (world_after (handle (env_ok alicia [] ''s2'') req_callback world2)))
         = map moreInfo (users world2)
       \<or> map moreInfo (users (world_after (handle (env_ok alicia [] ''s2'') req_callback world2)))
         = map moreInfo (users world2) @ [None]"
    by blast
  with h world2_moreInfo world2_callback_moreInfo show ?thesis by blast
qed

lemma post_sign_up_saved:
  assumes c: "signed_recentSession req = Some S" "S \<noteq> []"
    and b: "body_moreInfo req = Some v"
    and f: "findOne (\<lambda>u. session u = S) (users w) = Some (i, u)"
    and e: "findOne_error env = None" "write_error env = None"
  shows "users (world_after (post_sign_up env req w)) = (users w)[i := u\<lparr>moreInfo := Some v\<rparr>]"
proof (cases "moreInfo u = Some v")
  case True
  from findOne_Some [OF f] have "i < length (users w)" and "users w ! i = u"
    by simp_all
  moreover from True have "u\<lparr>moreInfo := Some v\<rparr> = u"
    by simp
  ultimately have "(users w)[i := u\<lparr>moreInfo := Some v\<rparr>] = users w"
    by (simp add: list_update_same_conv)
  with True c b f e show ?thesis
    by (simp add: post_sign_up_def findUserWithSession_def truthy_def Let_def)
next
  case False
  with c b f e show ?thesis
    by (simp add: post_sign_up_def findUserWithSession_def truthy_def Let_def)
qed

lemma post_sign_up_length:
  "length (users (world_after (post_sign_up env req w))) = length (users w)"
  by (simp add: post_sign_up_def findUserWithSession_def Let_def split: option.splits sum.splits)

text \<open>
  C8. Two submissions of the same value \<open>v\<close> with a cookie whose session is that of a
  row, both accepted by the datastore: the second leaves the table as the first left
  it, the user's row holds \<open>moreInfo = v\<close>, and the table has as many rows after each
  submission as before.
\<close>

theorem post_sign_up_idempotent:
  assumes c: "signed_recentSession req = Some S" "S \<noteq> []"
    and b: "body_moreInfo req = Some v"
    and f: "findOne (\<lambda>u. session u = S) (users w) = Some (i, u)"
    and e1: "findOne_error env1 = None" "write_error env1 = None"
    and e2: "findOne_error env2 = None" "write_error env2 = None"
  shows "users (world_after (post_sign_up env2 req (world_after (post_sign_up env1 req w))))
           = users (world_after (post_sign_up env1 req w))
       \<and> findOne (\<lambda>u. session u = S)
           (users (world_after (post_sign_up env2 req (world_after (post_sign_up env1 req w)))))
           = Some (i, u\<lparr>moreInfo := Some v\<rparr>)
       \<and> length (users (world_after (post_sign_up env1 req w))) = length (users w)
       \<and> length (users (world_after (post_sign_up env2 req (world_after (post_sign_up env1 req w)))))
           = length (users w)"
proof -
  let ?w1 = "world_after (post_sign_up env1 req w)"
  let ?u' = "u\<lparr>moreInfo := Some v\<rparr>"
  have w1: "users ?w1 = (users w)[i := ?u']"
    by (rule post_sign_up_saved [OF c b f e1])
  from findOne_Some [OF f] have i: "i < length (users w)" and s: "session u = S"
    by simp_all
  from s have f1: "findOne (\<lambda>u. session u = S) (users ?w1) = Some (i, ?u')"
    unfolding w1 by (intro findOne_update [OF f]) simp
  have "users (world_after (post_sign_up env2 req ?w1)) = (users ?w1)[i := ?u'\<lparr>moreInfo := Some v\<rparr>]"
    by (rule post_sign_up_saved [OF c b f1 e2])
  then have w2: "users (world_after (post_sign_up env2 req ?w1)) = users ?w1"
    by (simp add: w1)
  with f1 b post_sign_up_length [of env1 req w] show ?thesis
    by simp
qed

theorem post_sign_up_idempotent_witness:
  "findOne (\<lambda>u. session u = ''s1'') (users world1) \<noteq> None
   \<and> map moreInfo (users world1) = [None]
   \<and> map moreInfo (users (world_after (post_sign_up (env_ok alice [] ''b'')
        (req_to PostSignUp (Some ''s1'') (Some ''Interested in Module X''))
        (world_after (post_sign_up (env_ok alice [] ''a'')
           (req_to PostSignUp (Some ''s1'') (Some ''Interested in Module X'')) world1)))))
       = [Some ''Interested in Module X'']"
proof -
  let ?req = "req_to PostSignUp (Some ''s1'') (Some ''Interested in Module X'')"
  let ?w2 = "world_after (post_sign_up (env_ok alice [] ''b'') ?req
        (world_after (post_sign_up (env_ok alice [] ''a'') ?req world1)))"
  obtain r where r: "users world1 = [r]" "session r = ''s1''" "moreInfo r = None"
    by (simp add: handler_defs example_defs)
  then have f: "findOne (\<lambda>u. session u = ''s1'') (users world1) = Some (0, r)"
    by simp
  have c: "signed_recentSession ?req = Some ''s1''" "''s1'' \<noteq> []"
    "body_moreInfo ?req = Some ''Interested in Module X''"
    by (simp_all add: req_to_def)
  have e: "findOne_error (env_ok alice [] ''a'') = None" "write_error (env_ok alice [] ''a'') = None"
    "findOne_error (env_ok alice [] ''b'') = None" "write_error (env_ok alice [] ''b'') = None"
    by (simp_all add: env_ok_def)
  from post_sign_up_idempotent [OF c f e]
  have "findOne (\<lambda>u. session u = ''s1'') (users ?w2)
          = Some (0, r\<lparr>moreInfo := Some ''Interested in Module X''\<rparr>)
        \<and> length (users ?w2) = length (users world1)"
    by blast
  with r have "map moreInfo (users ?w2) = [Some ''Interested in Module X'']"
    by (cases "users ?w2") (auto split: if_splits option.splits)
  with f r show ?thesis by simp
qed

section \<open>Failures and the route boundary\<close>

text \<open>
  The four handlers with a \<^verbatim>\<open>try\<close> block or without an awaited call never leave an
  error to the framework.
\<close>

lemma guarded_routes_catch:
  "reply (callback env req w) \<noteq> Unhandled e
   \<and> reply (get_sign_up env req w) \<noteq> Unhandled e
   \<and> reply (post_sign_up env req w) \<noteq> Unhandled e
   \<and> reply (logout req w) \<noteq> Unhandled e"
  by (cases "callback_try env req w")
    (auto simp: callback_def get_sign_up_def post_sign_up_def logout_def Let_def
      split: option.splits sum.splits)

text \<open>
  C9 fails. GET / and GET /xero/sign-up await \<^verbatim>\<open>xero.buildConsentUrl()\<close> outside any
  \<^verbatim>\<open>try\<close>: when it fails, no error page is rendered and the error leaves the
  handler.
\<close>

theorem consent_url_failure_escapes:
  "reply (handle env_consent_fails (req_to GetRoot None None) world0) = Unhandled ConsentUrlError
   \<and> reply (handle env_consent_fails (req_to GetXeroSignUp None None) world0)
       = Unhandled ConsentUrlError"
  by (simp add: handle_def home_def xero_sign_up_def env_consent_fails_def env_ok_def req_to_def)

section \<open>The active tenant of a callback\<close>

text \<open>
  C10. The \<open>active_tenant\<close> that the callback passes to the upsert is the first
  element of the tenant list that \<^verbatim>\<open>xero.updateTenants\<close> returned, and
  \<^verbatim>\<open>undefined\<close> when that list is empty; the list is not tested. Whatever the list,
  when the other calls of the callback succeed nothing fails: the handler redirects to
  the form after the lookup, the upsert and the cookie. A row created by it holds that
  \<open>active_tenant\<close>, none for the empty list.
\<close>

theorem callback_without_tenants:
  assumes "apiCallback env (url req) = Inr tokenSet" and "updateTenants env = Inr ts"
    and "id_token tokenSet = Some d" and "findOne_error env = None" and "write_error env = None"
  shows "first_tenant [] = None
       \<and> reply (callback env req w) = Redirect ''/sign-up''
       \<and> xero_tenants (world_after (callback env req w)) = ts
       \<and> (\<exists>find up p. events (callback env req w)
                         = [find, up, SetCookie ''recentSession'' (uuid env) 3600000]
            \<and> upsert_params up = Some p \<and> email p = email_claim d
            \<and> (ts = [] \<longrightarrow> active_tenant p = None)
            \<and> (\<forall>t rest. ts = t # rest \<longrightarrow> active_tenant p = Some t))
       \<and> (findOne (\<lambda>u. email u = email_claim d) (users w) = None
            \<longrightarrow> (\<exists>u. users (world_after (callback env req w)) = users w @ [u]
                   \<and> email u = email_claim d
                   \<and> (ts = [] \<longrightarrow> active_tenant u = None)
                   \<and> (\<forall>t rest. ts = t # rest \<longrightarrow> active_tenant u = Some t)))"
proof -
  let ?found = "findOne (\<lambda>u. email u = email_claim d) (users w)"
  let ?p = "userParams d tokenSet (first_tenant ts) (uuid env)"
  from assms have t: "callback_try env req w =
      (None, \<lparr> users = upserted env ?found ?p (users w), xero_tenants = ts \<rparr>,
       [DbFindByEmail (email_claim d), upsert_event ?found ?p,
        SetCookie ''recentSession'' (uuid env) 3600000])"
    by (simp add: callback_try_def upsert_eq Let_def)
  have p: "upsert_params (upsert_event ?found ?p) = Some ?p"
    by (simp add: upsert_event_def split: option.splits)
  have a1: "ts = [] \<longrightarrow> active_tenant ?p = None"
    by (simp add: userParams_def first_tenant_def)
  have a2: "\<forall>t rest. ts = t # rest \<longrightarrow> active_tenant ?p = Some t"
    by (simp add: userParams_def first_tenant_def)
  have c: "active_tenant (create_row ?p) = active_tenant ?p"
    by (simp add: create_row_def)
  have out: "events (callback env req w)
               = [DbFindByEmail (email_claim d), upsert_event ?found ?p,
                  SetCookie ''recentSession'' (uuid env) 3600000]"
    "reply (callback env req w) = Redirect ''/sign-up''"
    "xero_tenants (world_after (callback env req w)) = ts"
    "users (world_after (callback env req w)) = upserted env ?found ?p (users w)"
    using t by (simp_all add: callback_def)
  have ev: "\<exists>find up p. events (callback env req w)
                         = [find, up, SetCookie ''recentSession'' (uuid env) 3600000]
            \<and> upsert_params up = Some p \<and> email p = email_claim d
            \<and> (ts = [] \<longrightarrow> active_tenant p = None)
            \<and> (\<forall>t rest. ts = t # rest \<longrightarrow> active_tenant p = Some t)"
  proof (intro exI conjI)
    show "events (callback env req w)
            = [DbFindByEmail (email_claim d), upsert_event ?found ?p,
               SetCookie ''recentSession'' (uuid env) 3600000]"
      by (rule out(1))
    show "upsert_params (upsert_event ?found ?p) = Some ?p"
      by (rule p)
    show "email ?p = email_claim d"
      by simp
    show "ts = [] \<longrightarrow> active_tenant ?p = None"
      by (rule a1)
    show "\<forall>t rest. ts = t # rest \<longrightarrow> active_tenant ?p = Some t"
      by (rule a2)
  qed
  have cr: "\<exists>u. users (world_after (callback env req w)) = users w @ [u]
                   \<and> email u = email_claim d
                   \<and> (ts = [] \<longrightarrow> active_tenant u = None)
                   \<and> (\<forall>t rest. ts = t # rest \<longrightarrow> active_tenant u = Some t)"
    if none: "?found = None"
  proof (intro exI conjI)
    show "users (world_after (callback env req w)) = users w @ [create_row ?p]"
      using out(4) none by (simp add: upserted_def)
    show "email (create_row ?p) = email_claim d"
      by simp
    show "ts = [] \<longrightarrow> active_tenant (create_row ?p) = None"
      unfolding c by (rule a1)
    show "\<forall>t rest. ts = t # rest \<longrightarrow> active_tenant (create_row ?p) = Some t"
      unfolding c by (rule a2)
  qed
  have "first_tenant ([] :: tenant list) = None"
    by (simp add: first_tenant_def)
  with out(2,3) ev cr show ?thesis
    by blast
qed

theorem callback_without_tenants_witness:
  "apiCallback (env_ok alice [] ''s1'') (url req_callback) = Inr (tokens_of alice)
   \<and> updateTenants (env_ok alice [] ''s1'') = Inr []
   \<and> reply (callback (env_ok alice [] ''s1'') req_callback world0) = Redirect ''/sign-up''
   \<and> map active_tenant (users (world_after (callback (env_ok alice [] ''s1'') req_callback world0)))
       = [None]
   \<and> updateTenants (env_ok alice [''t1'', ''t2''] ''s1'') = Inr [''t1'', ''t2'']
   \<and> reply (callback (env_ok alice [''t1'', ''t2''] ''s1'') req_callback world0)
       = Redirect ''/sign-up''
   \<and> map active_tenant
        (users (world_after (callback (env_ok alice [''t1'', ''t2''] ''s1'') req_callback world0)))
       = [Some ''t1'']"
proof -
  let ?env = "env_ok alice [] ''s1''"
  let ?env2 = "env_ok alice [''t1'', ''t2''] ''s1''"
  have h: "apiCallback ?env (url req_callback) = Inr (tokens_of alice)"
    "updateTenants ?env = Inr []" "id_token (tokens_of alice) = Some alice"
    "findOne_error ?env = None" "write_error ?env = None"
    by (simp_all add: env_ok_def tokens_of_def)
  have h2: "apiCallback ?env2 (url req_callback) = Inr (tokens_of alice)"
    "updateTenants ?env2 = Inr [''t1'', ''t2'']" "id_token (tokens_of alice) = Some alice"
    "findOne_error ?env2 = None" "write_error ?env2 = None"
    by (simp_all add: env_ok_def tokens_of_def)
  have f: "findOne (\<lambda>u. email u = email_claim alice) (users world0) = None"
    by (simp add: world0_def)
  from callback_without_tenants [OF h, of world0] f
  have "reply (callback ?env req_callback world0) = Redirect ''/sign-up''"
    and "\<exists>u. users (world_after (callback ?env req_callback world0)) = users world0 @ [u]
           \<and> active_tenant u = None"
    by blast+
  then have 1: "reply (callback ?env req_callback world0) = Redirect ''/sign-up''
    \<and> map active_tenant (users (world_after (callback ?env req_callback world0))) = [None]"
    by (auto simp: world0_def)
  from callback_without_tenants [OF h2, of world0] f
  have "reply (callback ?env2 req_callback world0) = Redirect ''/sign-up''"
    and "\<exists>u. users (world_after (callback ?env2 req_callback world0)) = users world0 @ [u]
           \<and> active_tenant u = Some ''t1''"
    by blast+
  then have 2: "reply (callback ?env2 req_callback world0) = Redirect ''/sign-up''
    \<and> map active_tenant (users (world_after (callback ?env2 req_callback world0))) = [Some ''t1'']"
    by (auto simp: world0_def)
  from 1 2 h(1,2) h2(2) show ?thesis
    by blast
qed

section \<open>One row per email, over all routes\<close>

text \<open>
  The form handler writes \<open>moreInfo\<close> only and the other routes do not write: the
  invariant of the callback holds for any sequence of requests to any routes.
\<close>

lemma post_sign_up_users_cases:
  "users (world_after (post_sign_up env req w)) = users w
   \<or> (\<exists>i u. i < length (users w) \<and> users w ! i = u
        \<and> users (world_after (post_sign_up env req w))
            = (users w)[i := u\<lparr>moreInfo := body_moreInfo req\<rparr>])"
  by (auto simp: post_sign_up_def findUserWithSession_def Let_def dest: findOne_Some
      split: option.splits sum.splits)

lemma handle_distinct_email:
  assumes "distinct (map email (users w))"
  shows "distinct (map email (users (world_after (handle env req w))))"
proof (cases "route req = GetCallback")
  case True
  with callback_distinct_email [OF assms, of env req] show ?thesis
    by (simp add: handle_def)
next
  case nc: False
  show ?thesis
  proof (cases "route req = PostSignUp")
    case True
    then have h: "handle env req w = post_sign_up env req w"
      by (simp add: handle_def)
    from post_sign_up_users_cases [of env req w] show ?thesis
    proof
      assume "users (world_after (post_sign_up env req w)) = users w"
      with assms h show ?thesis by simp
    next
      assume "\<exists>i u. i < length (users w) \<and> users w ! i = u
        \<and> users (world_after (post_sign_up env req w))
            = (users w)[i := u\<lparr>moreInfo := body_moreInfo req\<rparr>]"
      then obtain i where i: "i < length (users w)"
        and u: "users (world_after (post_sign_up env req w))
            = (users w)[i := (users w ! i)\<lparr>moreInfo := body_moreInfo req\<rparr>]"
        by blast
      from i have "map email ((users w)[i := (users w ! i)\<lparr>moreInfo := body_moreInfo req\<rparr>])
          = map email (users w)"
        by (simp add: map_update list_update_same_conv)
      with assms h u show ?thesis by simp
    qed
  next
    case False
    then have "\<not> (route req = PostSignUp \<and> truthy (signed_recentSession req))" by simp
    from handle_users_unchanged [OF nc this] assms show ?thesis by simp
  qed
qed

lemma serve_distinct_email:
  "distinct (map email (users w)) \<Longrightarrow> distinct (map email (users (serve rs w)))"
proof (induction rs arbitrary: w)
  case Nil
  then show ?case by simp
next
  case (Cons r rs)
  obtain env req where r: "r = (env, req)" by (cases r)
  from Cons.prems have "distinct (map email (users (world_after (handle env req w))))"
    by (rule handle_distinct_email)
  then have "distinct (map email (users (serve rs (world_after (handle env req w)))))"
    by (rule Cons.IH)
  with r show ?case by simp
qed

end
